theory Spec2Isabelle
  imports Main
begin

section \<open>The Amazon product spider\<close>

text \<open>
  A shallow embedding of \<^verbatim>\<open>amazonScraper/spiders/amazonSpider.py\<close>: the class
  \<^verbatim>\<open>AmazonSpider\<close> with its class attributes, its constructor, the generator
  \<^verbatim>\<open>start_requests\<close>, the two callbacks \<^verbatim>\<open>parse\<close> and
  \<^verbatim>\<open>parse_product\<close>, and the signal handler \<^verbatim>\<open>spider_closed\<close>.

  The crawling framework is not part of the repository. What the spider asks of it is kept
  as data or as a parameter: a response answers the selector queries the spider sends
  (\<^verbatim>\<open>css(q).get()\<close>, \<^verbatim>\<open>xpath(q).get()\<close>, ...) and carries its
  \<^verbatim>\<open>urljoin\<close>, which returns a URL or raises; the constructor of
  \<^verbatim>\<open>Request\<close> is a parameter that returns the URL the request ends up with or
  raises; \<^verbatim>\<open>json.loads\<close> is a parameter that returns a value or raises;
  \<^verbatim>\<open>random.choice\<close> reads an explicit stream of draws; the attribute
  \<^verbatim>\<open>self.crawler\<close> is there or not when the constructor runs. Calls to the logger
  only write log lines and are left out, as is the wall-clock \<^verbatim>\<open>start_time\<close>.

  A Python \<^verbatim>\<open>str\<close> is the \<open>string\<close> of its UTF-8 bytes.
\<close>

subsection \<open>Exceptions\<close>

datatype error =
    CloseSpider string
  | IndexError
  | KeyError
  | TypeError
  | AttributeError
  | ValueError
  | JSONDecodeError

subsection \<open>random.choice\<close>

text \<open>
  The generator state is the sequence of raw draws still to come. \<^verbatim>\<open>random.choice(seq)\<close>
  raises IndexError on an empty sequence and otherwise returns \<^verbatim>\<open>seq[k]\<close> for an index
  \<open>k\<close> below the length, consuming one draw.
\<close>

type_synonym rng = "nat \<Rightarrow> nat"

definition choice :: "'a list \<Rightarrow> rng \<Rightarrow> error + ('a \<times> rng)" where
  "choice seq g =
     (if seq = [] then Inl IndexError
      else Inr (seq ! (g 0 mod length seq), \<lambda>i. g (Suc i)))"

subsection \<open>Requests, selectors, responses\<close>

datatype handler = CB_parse | CB_parse_product | CB_errback | CB_spider_closed

text \<open>
  \<^verbatim>\<open>Request(url, headers=..., meta=..., callback=..., errback=...)\<close>. The two
  dictionaries are association lists in insertion order; a request built without
  \<^verbatim>\<open>meta\<close> has the empty one. The constructor belongs to the framework: it may
  refuse the URL with an exception, and the URL it stores may differ from the one it was
  given (escaping). It is the parameter \<open>new_request\<close> of the generators below, from the
  URL given to the URL stored or the exception raised.
\<close>

record request =
  request_url :: string
  headers :: "(string \<times> string) list"
  meta :: "(string \<times> string) list"
  callback :: handler
  errback :: handler

type_synonym request_init = "string \<Rightarrow> error + string"

text \<open>
  What a generator did: the requests it yielded, in order, the exception that ended it
  (\<open>None\<close> when it ran to its end), and the state of the random generator afterwards.
  The requests yielded before an exception stay yielded.
\<close>

type_synonym generated = "request list \<times> error option \<times> rng"

text \<open>
  A selector for one result block answers \<^verbatim>\<open>block.css(q).get()\<close>: the first match
  or \<^verbatim>\<open>None\<close>.
\<close>

datatype selector = Selector (sel_css_get: "string \<Rightarrow> string option")

record response =
  url :: string
  urljoin :: "string \<Rightarrow> error + string"
  css :: "string \<Rightarrow> selector list"
  css_get :: "string \<Rightarrow> string option"
  css_getall :: "string \<Rightarrow> string list"
  xpath_get :: "string \<Rightarrow> string option"
  xpath_re_first :: "string \<Rightarrow> string \<Rightarrow> string option"

subsection \<open>The spider class and its constructor\<close>

record spider =
  keyword :: string
  start_urls :: "string list"
  USER_AGENTS :: "string list"
  PROXIES :: "string list"
  total_items :: int

text \<open>The crawler, as far as the spider touches it: the handlers connected to its signals.\<close>

record crawler =
  connected :: "(string \<times> handler) list"

text \<open>
  The class body runs once, when the class is defined.
  \<^verbatim>\<open>keyword = getattr(scrapy.utils.project, 'keyword', 'laptops')\<close> reads an attribute
  of a framework module, given here as \<open>project_attr\<close> (\<open>None\<close> when the module has no
  such attribute), and \<^verbatim>\<open>start_urls\<close> is the f-string over that class-level value.
\<close>

definition class_keyword :: "string option \<Rightarrow> string" where
  "class_keyword project_attr =
     (case project_attr of None \<Rightarrow> ''laptops'' | Some k \<Rightarrow> k)"

definition class_start_urls :: "string option \<Rightarrow> string list" where
  "class_start_urls project_attr =
     [''https://www.amazon.com/s?k='' @ class_keyword project_attr]"

definition class_USER_AGENTS :: "string list" where
  "class_USER_AGENTS =
     [''Mozilla/5.0 (Windows NT 10.0; Win64; x64) AppleWebKit/537.36 '' @
      ''(KHTML, like Gecko) Chrome/100.0.4896.127 Safari/537.36'',
      ''Mozilla/5.0 (Macintosh; Intel Mac OS X 10_15_7) AppleWebKit/605.1.15 '' @
      ''(KHTML, like Gecko) Version/15.1 Safari/605.1.15'',
      ''Mozilla/5.0 (X11; Ubuntu; Linux x86_64; rv:92.0) Gecko/20100101 Firefox/92.0'']"

definition class_PROXIES :: "string list" where
  "class_PROXIES = []"

text \<open>
  The attributes of an instance right after \<^verbatim>\<open>super().__init__(*args, **kwargs)\<close>
  and \<^verbatim>\<open>self.total_items = 0\<close>. The documented spider argument is
  \<^verbatim>\<open>keyword\<close> (\<^verbatim>\<open>-a keyword=...\<close> on the command line), given here as
  \<open>keyword_arg\<close>. The base constructor stores a spider argument as an instance attribute
  of the same name; every other attribute is still the class's.
\<close>

definition attributes :: "string option \<Rightarrow> string option \<Rightarrow> spider" where
  "attributes project_attr keyword_arg =
     \<lparr>keyword = (case keyword_arg of None \<Rightarrow> class_keyword project_attr | Some k \<Rightarrow> k),
      start_urls = class_start_urls project_attr,
      USER_AGENTS = class_USER_AGENTS,
      PROXIES = class_PROXIES,
      total_items = 0\<rparr>"

text \<open>
  \<^verbatim>\<open>__init__(self, *args, **kwargs)\<close>. After setting the attributes it reads
  \<^verbatim>\<open>self.crawler\<close> to connect \<^verbatim>\<open>spider_closed\<close> to the signal of that
  name. \<open>crawler_attr\<close> is that attribute when the line runs, \<open>None\<close> when the instance
  has none yet: then the read raises AttributeError and no spider comes to be. A framework
  that assigns the crawler only after the constructor has returned, as Scrapy's
  \<^verbatim>\<open>from_crawler\<close> does, is the case \<open>None\<close>.
\<close>

definition init ::
  "string option \<Rightarrow> string option \<Rightarrow> crawler option \<Rightarrow> error + (spider \<times> crawler)" where
  "init project_attr keyword_arg crawler_attr =
     (case crawler_attr of
        None \<Rightarrow> Inl AttributeError
      | Some c \<Rightarrow>
          Inr (attributes project_attr keyword_arg,
               c\<lparr>connected := connected c @ [(''spider_closed'', CB_spider_closed)]\<rparr>))"

subsection \<open>spider_closed\<close>

text \<open>
  The handler raises \<^verbatim>\<open>CloseSpider\<close> when no item was counted and returns
  \<^verbatim>\<open>None\<close> otherwise. The dash of the message is U+2014, three bytes in UTF-8.
\<close>

definition no_items_message :: string where
  "no_items_message =
     ''No items scraped '' @ [CHR 0xE2, CHR 0x80, CHR 0x94] @ '' stopping spider''"

definition spider_closed :: "spider \<Rightarrow> error + unit" where
  "spider_closed self =
     (if total_items self = 0 then Inl (CloseSpider no_items_message) else Inr ())"

subsection \<open>start_requests\<close>

text \<open>
  One request per start URL: a user agent is drawn first, then, only when
  \<^verbatim>\<open>PROXIES\<close> is non-empty, a proxy, stored under \<^verbatim>\<open>meta['proxy']\<close>; then
  the request is constructed and yielded.
\<close>

fun start_requests_loop :: "request_init \<Rightarrow> spider \<Rightarrow> string list \<Rightarrow> rng \<Rightarrow> generated" where
  "start_requests_loop new_request self [] g = ([], None, g)"
| "start_requests_loop new_request self (u # urls) g =
     (case choice (USER_AGENTS self) g of
        Inl e \<Rightarrow> ([], Some e, g)
      | Inr (ua, g1) \<Rightarrow>
          (case (if PROXIES self \<noteq> []
                 then (case choice (PROXIES self) g1 of
                         Inl e \<Rightarrow> Inl e
                       | Inr (p, g2) \<Rightarrow> Inr ([(''proxy'', p)], g2))
                 else Inr ([], g1)) of
             Inl e \<Rightarrow> ([], Some e, g1)
           | Inr (m, g2) \<Rightarrow>
               (case new_request u of
                  Inl e \<Rightarrow> ([], Some e, g2)
                | Inr stored \<Rightarrow>
                    (case start_requests_loop new_request self urls g2 of
                       (reqs, err, g3) \<Rightarrow>
                         (\<lparr>request_url = stored, headers = [(''User-Agent'', ua)], meta = m,
                           callback = CB_parse, errback = CB_errback\<rparr> # reqs, err, g3)))))"

definition start_requests :: "request_init \<Rightarrow> spider \<Rightarrow> rng \<Rightarrow> generated" where
  "start_requests new_request self g =
     start_requests_loop new_request self (start_urls self) g"

subsection \<open>parse\<close>

definition results_query :: string where
  \<open>results_query = ''div[data-component-type="s-search-result"]''\<close>

definition href_query :: string where
  "href_query = ''h2 a::attr(href)''"

definition next_page_query :: string where
  "next_page_query = ''ul.a-pagination li.a-last a::attr(href)''"

text \<open>
  The loop over the result blocks. \<^verbatim>\<open>if not rel: continue\<close> skips a block whose
  href is \<^verbatim>\<open>None\<close> or the empty string. For any other block the href is joined to
  the page's URL, a user agent is drawn, and the product request is constructed with
  \<^verbatim>\<open>meta = {'referer': response.url}\<close> and yielded. An exception from
  \<^verbatim>\<open>urljoin\<close>, from the draw or from the constructor ends the generator there.
\<close>

fun parse_results ::
  "request_init \<Rightarrow> spider \<Rightarrow> response \<Rightarrow> selector list \<Rightarrow> rng \<Rightarrow> generated" where
  "parse_results new_request self r [] g = ([], None, g)"
| "parse_results new_request self r (block # results) g =
     (case sel_css_get block href_query of
        None \<Rightarrow> parse_results new_request self r results g
      | Some rel \<Rightarrow>
          if rel = [] then parse_results new_request self r results g
          else
            (case urljoin r rel of
               Inl e \<Rightarrow> ([], Some e, g)
             | Inr prod_url \<Rightarrow>
                 (case choice (USER_AGENTS self) g of
                    Inl e \<Rightarrow> ([], Some e, g)
                  | Inr (ua, g1) \<Rightarrow>
                      (case new_request prod_url of
                         Inl e \<Rightarrow> ([], Some e, g1)
                       | Inr stored \<Rightarrow>
                           (case parse_results new_request self r results g1 of
                              (reqs, err, g2) \<Rightarrow>
                                (\<lparr>request_url = stored, headers = [(''User-Agent'', ua)],
                                  meta = [(''referer'', url r)],
                                  callback = CB_parse_product, errback = CB_errback\<rparr> # reqs,
                                 err, g2))))))"

text \<open>
  After the blocks, and only if the loop ran to its end, the pagination link:
  \<^verbatim>\<open>if next_page:\<close> is false for \<^verbatim>\<open>None\<close> and for the empty string. The
  next-page request is built with headers only.
\<close>

definition parse :: "request_init \<Rightarrow> spider \<Rightarrow> response \<Rightarrow> rng \<Rightarrow> generated" where
  "parse new_request self r g =
     (case parse_results new_request self r (css r results_query) g of
        (reqs, Some e, g1) \<Rightarrow> (reqs, Some e, g1)
      | (reqs, None, g1) \<Rightarrow>
          (case css_get r next_page_query of
             None \<Rightarrow> (reqs, None, g1)
           | Some next_page \<Rightarrow>
               if next_page = [] then (reqs, None, g1)
               else
                 (case urljoin r next_page of
                    Inl e \<Rightarrow> (reqs, Some e, g1)
                  | Inr next_url \<Rightarrow>
                      (case choice (USER_AGENTS self) g1 of
                         Inl e \<Rightarrow> (reqs, Some e, g1)
                       | Inr (ua, g2) \<Rightarrow>
                           (case new_request next_url of
                              Inl e \<Rightarrow> (reqs, Some e, g2)
                            | Inr stored \<Rightarrow>
                                (reqs @ [\<lparr>request_url = stored,
                                          headers = [(''User-Agent'', ua)], meta = [],
                                          callback = CB_parse, errback = CB_errback\<rparr>],
                                 None, g2))))))"

subsection \<open>parse_product\<close>

text \<open>
  \<^verbatim>\<open>str.strip()\<close> removes leading and trailing whitespace, the characters of which
  \<^verbatim>\<open>str.isspace\<close> holds: U+0009 to U+000D, U+001C to U+0020, U+0085, U+00A0,
  U+1680, U+2000 to U+200A, U+2028, U+2029, U+202F, U+205F and U+3000. In UTF-8 they take
  one, two or three bytes.
\<close>

definition space1 :: "char \<Rightarrow> bool" where
  "space1 a =
     (let n = of_char a :: nat in (9 \<le> n \<and> n \<le> 13) \<or> (28 \<le> n \<and> n \<le> 32))"

definition space2 :: "char \<Rightarrow> char \<Rightarrow> bool" where
  "space2 a b = (a = CHR 0xC2 \<and> (b = CHR 0x85 \<or> b = CHR 0xA0))"

definition space3 :: "char \<Rightarrow> char \<Rightarrow> char \<Rightarrow> bool" where
  "space3 a b c =
     (let n = of_char c :: nat
      in (a = CHR 0xE1 \<and> b = CHR 0x9A \<and> c = CHR 0x80) \<or>
         (a = CHR 0xE2 \<and> b = CHR 0x80 \<and>
            ((128 \<le> n \<and> n \<le> 138) \<or> n = 168 \<or> n = 169 \<or> n = 175)) \<or>
         (a = CHR 0xE2 \<and> b = CHR 0x81 \<and> c = CHR 0x9F) \<or>
         (a = CHR 0xE3 \<and> b = CHR 0x80 \<and> c = CHR 0x80))"

text \<open>Whitespace off the front.\<close>

fun lstrip :: "string \<Rightarrow> string" where
  "lstrip (a # b # c # s) =
     (if space1 a then lstrip (b # c # s)
      else if space2 a b then lstrip (c # s)
      else if space3 a b c then lstrip s
      else a # b # c # s)"
| "lstrip [a, b] =
     (if space1 a then lstrip [b] else if space2 a b then [] else [a, b])"
| "lstrip [a] = (if space1 a then [] else [a])"
| "lstrip [] = []"

text \<open>
  Whitespace off the end, on the reversed string: the last byte comes first. A lead byte
  is never a continuation byte, so bytes that spell a whitespace character at the end of
  the string are that character.
\<close>

fun rstrip_rev :: "string \<Rightarrow> string" where
  "rstrip_rev (c # b # a # s) =
     (if space1 c then rstrip_rev (b # a # s)
      else if space2 b c then rstrip_rev (a # s)
      else if space3 a b c then rstrip_rev s
      else c # b # a # s)"
| "rstrip_rev [c, b] =
     (if space1 c then rstrip_rev [b] else if space2 b c then [] else [c, b])"
| "rstrip_rev [c] = (if space1 c then [] else [c])"
| "rstrip_rev [] = []"

definition strip :: "string \<Rightarrow> string" where
  "strip s = rev (rstrip_rev (rev (lstrip s)))"

text \<open>
  \<^verbatim>\<open>re.search(r'/dp/([A-Z0-9]{10})', response.url)\<close> and its group 1: the ten
  characters after the leftmost \<^verbatim>\<open>/dp/\<close> that is followed by ten characters of
  \<^verbatim>\<open>A-Z\<close> and \<^verbatim>\<open>0-9\<close>.
\<close>

definition asin_char :: "char \<Rightarrow> bool" where
  "asin_char c =
     (let n = of_char c :: nat
      in (65 \<le> n \<and> n \<le> 90) \<or> (48 \<le> n \<and> n \<le> 57))"

fun asin_search :: "string \<Rightarrow> string option" where
  "asin_search [] = None"
| "asin_search (c # cs) =
     (let grp = take 10 (drop 4 (c # cs))
      in if take 4 (c # cs) = ''/dp/'' \<and> length grp = 10 \<and> list_all asin_char grp
         then Some grp
         else asin_search cs)"

text \<open>
  The value \<^verbatim>\<open>json.loads\<close> returns: \<^verbatim>\<open>None\<close>, a bool, an int, a float (a
  mantissa and a binary exponent), a str, a list, or a dict as the association list of its
  keys in order, each key once.
\<close>

datatype json =
    JNull
  | JBool bool
  | JInt int
  | JFloat int int
  | JStr string
  | JArr "json list"
  | JObj "(string \<times> json) list"

text \<open>\<^verbatim>\<open>data.get('initial', [])\<close>: only a dict has \<^verbatim>\<open>get\<close>.\<close>

fun get_initial :: "json \<Rightarrow> error + json" where
  "get_initial (JObj kvs) =
     (case map_of kvs ''initial'' of None \<Rightarrow> Inr (JArr []) | Some v \<Rightarrow> Inr v)"
| "get_initial _ = Inl AttributeError"

text \<open>
  The characters of a str: in UTF-8 a character is a byte followed by its continuation
  bytes, those from 0x80 to 0xBF.
\<close>

definition continuation :: "char \<Rightarrow> bool" where
  "continuation c = (let n = of_char c :: nat in 128 \<le> n \<and> n \<le> 191)"

function characters :: "string \<Rightarrow> string list" where
  "characters [] = []"
| "characters (c # cs) =
     (c # takeWhile continuation cs) # characters (dropWhile continuation cs)"
  by pat_completeness auto
termination
  by (relation "measure length") (auto simp: less_Suc_eq_le length_dropWhile_le)

text \<open>
  \<^verbatim>\<open>for i in ...\<close>: a list gives its elements, a str its characters, a dict its keys;
  nothing else is iterable.
\<close>

fun iterate :: "json \<Rightarrow> error + json list" where
  "iterate (JArr xs) = Inr xs"
| "iterate (JStr s) = Inr (map JStr (characters s))"
| "iterate (JObj kvs) = Inr (map (\<lambda>kv. JStr (fst kv)) kvs)"
| "iterate _ = Inl TypeError"

text \<open>
  \<^verbatim>\<open>i['large']\<close>: a dict without the key raises KeyError; a list or a str indexed by
  a str, and a value that cannot be subscripted, raise TypeError.
\<close>

fun large :: "json \<Rightarrow> error + json" where
  "large (JObj kvs) =
     (case map_of kvs ''large'' of None \<Rightarrow> Inl KeyError | Some v \<Rightarrow> Inr v)"
| "large _ = Inl TypeError"

fun larges :: "json list \<Rightarrow> error + json list" where
  "larges [] = Inr []"
| "larges (i # rest) =
     (case large i of
        Inl e \<Rightarrow> Inl e
      | Inr v \<Rightarrow> (case larges rest of Inl e \<Rightarrow> Inl e | Inr vs \<Rightarrow> Inr (v # vs)))"

text \<open>The body of the \<^verbatim>\<open>try\<close>, with \<^verbatim>\<open>json.loads\<close> as the parameter \<open>loads\<close>.\<close>

definition load_images :: "(string \<Rightarrow> error + json) \<Rightarrow> string \<Rightarrow> error + json list" where
  "load_images loads js_raw =
     (case loads js_raw of
        Inl e \<Rightarrow> Inl e
      | Inr data \<Rightarrow>
          (case get_initial data of
             Inl e \<Rightarrow> Inl e
           | Inr ini \<Rightarrow>
               (case iterate ini of Inl e \<Rightarrow> Inl e | Inr xs \<Rightarrow> larges xs)))"

record item =
  asin :: string
  title :: string
  price :: string
  rating :: string
  reviews :: string
  features :: "string list"
  description :: string
  images :: "json list"
  item_url :: string

text \<open>
  The local function \<^verbatim>\<open>extract(query)\<close>, which is
  \<^verbatim>\<open>response.xpath(query).get(default='').strip()\<close>.
\<close>

definition extract_text :: "response \<Rightarrow> string \<Rightarrow> string" where
  "extract_text r query = strip (case xpath_get r query of None \<Rightarrow> [] | Some s \<Rightarrow> s)"

definition asin_query :: string where
  \<open>asin_query = ''//th[text()="ASIN"]/following-sibling::td/text()''\<close>

definition title_query :: string where
  \<open>title_query = ''//span[@id="productTitle"]/text()''\<close>

definition price_query :: string where
  \<open>price_query = ''//*[contains(@id,"priceblock_")]/text()''\<close>

definition rating_query :: string where
  \<open>rating_query = ''//span[@data-hook="rating-out-of-text"]/text()''\<close>

definition reviews_query :: string where
  \<open>reviews_query = ''//span[@id="acrCustomerReviewText"]/text()''\<close>

definition features_query :: string where
  "features_query = ''#feature-bullets .a-list-item::text''"

definition description_query :: string where
  \<open>description_query = ''//div[@id="productDescription"]//p/text()''\<close>

definition script_query :: string where
  \<open>script_query = ''//script[contains(.,"ImageBlockATF")]/text()''\<close>

definition color_images_regex :: string where
  \<open>color_images_regex =
     ''"colorImages":('' @ [CHR 0x5C] @ ''{.*?'' @ [CHR 0x5C] @ ''})''\<close>

text \<open>
  The callback for a product page. It returns the item and the spider with
  \<^verbatim>\<open>total_items\<close> incremented. The only statements that can raise are inside the
  \<^verbatim>\<open>try\<close>, whose handler \<^verbatim>\<open>except Exception\<close> resets \<^verbatim>\<open>imgs\<close> to the
  empty list.
\<close>

definition parse_product ::
  "(string \<Rightarrow> error + json) \<Rightarrow> spider \<Rightarrow> response \<Rightarrow> item \<times> spider" where
  "parse_product loads self r =
     (let asin' = (case asin_search (url r) of
                     Some grp \<Rightarrow> grp
                   | None \<Rightarrow> extract_text r asin_query);
          title' = extract_text r title_query;
          price' = extract_text r price_query;
          rating' = extract_text r rating_query;
          reviews' = extract_text r reviews_query;
          features' = map strip (filter (\<lambda>f. strip f \<noteq> []) (css_getall r features_query));
          desc = extract_text r description_query;
          imgs = (case xpath_re_first r script_query color_images_regex of
                    None \<Rightarrow> []
                  | Some js_raw \<Rightarrow>
                      if js_raw = [] then []
                      else (case load_images loads js_raw of
                              Inl e \<Rightarrow> []
                            | Inr vs \<Rightarrow> vs))
      in (\<lparr>asin = asin', title = title', price = price', rating = rating',
           reviews = reviews', features = features', description = desc,
           images = imgs, item_url = url r\<rparr>,
          self\<lparr>total_items := total_items self + 1\<rparr>))"

subsection \<open>What a search page offers\<close>

text \<open>
  The vocabulary of the properties below. A value a selector returned is a link when it is
  neither \<^verbatim>\<open>None\<close> nor the empty string, which is Python's truth test on it.
\<close>

definition is_link :: "string option \<Rightarrow> bool" where
  "is_link rel = (case rel of None \<Rightarrow> False | Some s \<Rightarrow> s \<noteq> [])"

definition links_of :: "selector list \<Rightarrow> string list" where
  "links_of blocks =
     map (\<lambda>b. the (sel_css_get b href_query))
       (filter (\<lambda>b. is_link (sel_css_get b href_query)) blocks)"

definition product_links :: "response \<Rightarrow> string list" where
  "product_links r = links_of (css r results_query)"

definition next_page_links :: "response \<Rightarrow> string list" where
  "next_page_links r =
     (if is_link (css_get r next_page_query) then [the (css_get r next_page_query)] else [])"

definition blocks_with_href :: "response \<Rightarrow> selector list" where
  "blocks_with_href r =
     filter (\<lambda>b. sel_css_get b href_query \<noteq> None) (css r results_query)"

definition blocks_with_link :: "response \<Rightarrow> selector list" where
  "blocks_with_link r =
     filter (\<lambda>b. is_link (sel_css_get b href_query)) (css r results_query)"

text \<open>
  The URL a request for a link gets: the link joined to the page's URL and passed through
  the constructor of \<^verbatim>\<open>Request\<close>, or the exception either of them raises. A link is
  accepted when neither raises.
\<close>

definition link_url :: "request_init \<Rightarrow> response \<Rightarrow> string \<Rightarrow> error + string" where
  "link_url new_request r rel =
     (case urljoin r rel of Inl e \<Rightarrow> Inl e | Inr u \<Rightarrow> new_request u)"

definition accepted :: "request_init \<Rightarrow> response \<Rightarrow> string \<Rightarrow> bool" where
  "accepted new_request r rel =
     (case link_url new_request r rel of Inl e \<Rightarrow> False | Inr u \<Rightarrow> True)"

definition stored_url :: "request \<Rightarrow> error + string" where
  "stored_url q = Inr (request_url q)"




definition product_requests :: "request list \<Rightarrow> request list" where
  "product_requests reqs = filter (\<lambda>q. callback q = CB_parse_product) reqs"

subsection \<open>Concrete pages, spiders and collaborators\<close>

definition draws :: rng where
  "draws = (\<lambda>i. i)"

fun contains :: "string \<Rightarrow> string \<Rightarrow> bool" where
  "contains p [] = (p = [])"
| "contains p (c # cs) = (take (length p) (c # cs) = p \<or> contains p cs)"

text \<open>
  A constructor of \<^verbatim>\<open>Request\<close> that raises ValueError for a URL without
  \<^verbatim>\<open>://\<close>, unless it is an \<^verbatim>\<open>about:\<close> or a \<^verbatim>\<open>data:\<close> URL, and stores
  any other URL as it is given: the framework's constructor on the URLs of the pages below,
  which need no escaping.
\<close>

definition scheme_checked :: request_init where
  "scheme_checked u =
     (if contains ''://'' u \<or> take 6 u = ''about:'' \<or> take 5 u = ''data:''
      then Inr u else Inl ValueError)"

text \<open>
  \<^verbatim>\<open>urljoin\<close> for a page of \<^verbatim>\<open>https://www.amazon.com\<close>, on the two kinds of
  reference the pages below hold: a reference that is an absolute path goes under the
  host, and a reference with a scheme of its own stays as it is.
\<close>

definition amazon_urljoin :: "string \<Rightarrow> error + string" where
  "amazon_urljoin rel =
     (if take 1 rel = ''/'' then Inr (''https://www.amazon.com'' @ rel) else Inr rel)"

definition block_with :: "string option \<Rightarrow> selector" where
  "block_with rel = Selector (\<lambda>q. if q = href_query then rel else None)"

definition search_page :: "selector list \<Rightarrow> string option \<Rightarrow> response" where
  "search_page blocks next_page =
     \<lparr>url = ''https://www.amazon.com/s?k=laptops'',
      urljoin = amazon_urljoin,
      css = (\<lambda>q. if q = results_query then blocks else []),
      css_get = (\<lambda>q. if q = next_page_query then next_page else None),
      css_getall = (\<lambda>q. []),
      xpath_get = (\<lambda>q. None),
      xpath_re_first = (\<lambda>q re. None)\<rparr>"

definition two_products_page :: response where
  "two_products_page =
     search_page
       [block_with (Some ''/dp/B000000001''), block_with None,
        block_with (Some ''/dp/B000000002'')]
       (Some ''/s?k=laptops&page=2'')"

definition last_page :: response where
  "last_page = search_page [block_with (Some ''/dp/B000000003'')] None"

definition empty_href_page :: response where
  "empty_href_page = search_page [block_with (Some [])] None"

text \<open>A page whose second result block links to a script.\<close>

definition script_href_page :: response where
  "script_href_page =
     search_page
       [block_with (Some ''/dp/B000000001''), block_with (Some ''javascript:void(0)''),
        block_with (Some ''/dp/B000000002'')]
       (Some ''/s?k=laptops&page=2'')"

definition bare_product_page :: response where
  \<open>bare_product_page =
     \<lparr>url = ''https://www.amazon.com/gp/product/1'',
      urljoin = amazon_urljoin,
      css = (\<lambda>q. []),
      css_get = (\<lambda>q. None),
      css_getall = (\<lambda>q. []),
      xpath_get = (\<lambda>q. None),
      xpath_re_first =
        (\<lambda>q re. if q = script_query \<and> re = color_images_regex
                then Some ''{"initial":[{"large":"a.jpg"}'' else None)\<rparr>\<close>

definition loads_fails :: "string \<Rightarrow> error + json" where
  "loads_fails s = Inl JSONDecodeError"

text \<open>The attributes of a spider built without arguments.\<close>

definition new_spider :: spider where
  "new_spider = attributes None None"


definition idle_crawler :: crawler where
  "idle_crawler = \<lparr>connected = []\<rparr>"

section \<open>Properties\<close>

subsection \<open>Auxiliary facts\<close>

lemma choice_nonempty:
  "seq \<noteq> [] \<Longrightarrow> choice seq g = Inr (seq ! (g 0 mod length seq), \<lambda>i. g (Suc i))"
  by (simp add: choice_def)


lemma map_replicate_all:
  assumes "map f xs = replicate n c" and "x \<in> set xs"
  shows "f x = c"
proof -
  from assms(2) have "f x \<in> set (map f xs)" by simp
  with assms(1) show ?thesis by simp
qed

lemma accepted_url:
  "accepted new_request r rel \<Longrightarrow>
     \<exists>joined stored. urljoin r rel = Inr joined \<and> new_request joined = Inr stored \<and>
       link_url new_request r rel = Inr stored"
  by (auto simp: accepted_def link_url_def split: sum.splits)

lemma parse_results_accepted:
  assumes "USER_AGENTS self \<noteq> []"
  shows "\<forall>rel \<in> set (links_of blocks). accepted new_request r rel \<Longrightarrow>
         \<exists>reqs g'. parse_results new_request self r blocks g = (reqs, None, g') \<and>
           map stored_url reqs = map (link_url new_request r) (links_of blocks) \<and>
           map callback reqs = replicate (length (links_of blocks)) CB_parse_product"
proof (induction blocks arbitrary: g)
  case Nil
  show ?case by (simp add: links_of_def)
next
  case (Cons b bs)
  show ?case
  proof (cases "is_link (sel_css_get b href_query)")
    case False
    then have "parse_results new_request self r (b # bs) g = parse_results new_request self r bs g"
      by (simp add: is_link_def split: option.splits)
    moreover from False have "links_of (b # bs) = links_of bs"
      by (simp add: links_of_def)
    ultimately show ?thesis using Cons.IH [of g] Cons.prems by simp
  next
    case True
    then obtain rel where rel: "sel_css_get b href_query = Some rel" "rel \<noteq> []"
      by (auto simp: is_link_def split: option.splits)
    from True rel have links: "links_of (b # bs) = rel # links_of bs"
      by (simp add: links_of_def)
    with Cons.prems have acc: "accepted new_request r rel"
      and rest_acc: "\<forall>x \<in> set (links_of bs). accepted new_request r x"
      by simp_all
    from accepted_url [OF acc] obtain joined stored where
      url: "urljoin r rel = Inr joined" "new_request joined = Inr stored"
        "link_url new_request r rel = Inr stored"
      by blast
    define g1 where "g1 = (\<lambda>i. g (Suc i))"
    define ua where "ua = USER_AGENTS self ! (g 0 mod length (USER_AGENTS self))"
    have ch: "choice (USER_AGENTS self) g = Inr (ua, g1)"
      using choice_nonempty [OF assms, of g] by (simp add: ua_def g1_def)
    from Cons.IH [OF rest_acc, of g1] obtain reqs g2 where
      rest: "parse_results new_request self r bs g1 = (reqs, None, g2)"
        "map stored_url reqs = map (link_url new_request r) (links_of bs)"
        "map callback reqs = replicate (length (links_of bs)) CB_parse_product"
      by blast
    define q where
      "q = \<lparr>request_url = stored, headers = [(''User-Agent'', ua)],
             meta = [(''referer'', url r)],
             callback = CB_parse_product, errback = CB_errback\<rparr>"
    from rel url ch rest(1) have
      run: "parse_results new_request self r (b # bs) g = (q # reqs, None, g2)"
      by (simp add: q_def)
    have "stored_url q = link_url new_request r rel"
      by (simp add: stored_url_def q_def url(3))
    moreover have "callback q = CB_parse_product"
      by (simp add: q_def)
    ultimately show ?thesis using run rest(2,3) links by simp
  qed
qed

lemma parse_shape:
  assumes "USER_AGENTS self \<noteq> []"
    and "\<forall>rel \<in> set (product_links r). accepted new_request r rel"
    and "\<forall>rel \<in> set (next_page_links r). accepted new_request r rel"
  shows "\<exists>prods nexts g'. parse new_request self r g = (prods @ nexts, None, g') \<and>
           map stored_url prods = map (link_url new_request r) (product_links r) \<and>
           map callback prods = replicate (length (product_links r)) CB_parse_product \<and>
           map stored_url nexts = map (link_url new_request r) (next_page_links r) \<and>
           map callback nexts = replicate (length (next_page_links r)) CB_parse"
proof -
  from assms(2) have "\<forall>rel \<in> set (links_of (css r results_query)). accepted new_request r rel"
    by (simp add: product_links_def)
  from parse_results_accepted [OF assms(1) this, of g]
  obtain prods g1 where
    prods: "parse_results new_request self r (css r results_query) g = (prods, None, g1)"
      "map stored_url prods = map (link_url new_request r) (product_links r)"
      "map callback prods = replicate (length (product_links r)) CB_parse_product"
    by (auto simp: product_links_def)
  show ?thesis
  proof (cases "is_link (css_get r next_page_query)")
    case False
    then have "parse new_request self r g = (prods @ [], None, g1)"
      using prods(1) by (simp add: parse_def is_link_def split: option.splits)
    moreover from False have "next_page_links r = []"
      by (simp add: next_page_links_def)
    ultimately show ?thesis using prods(2,3)
      by (metis list.size(3) list.simps(8) replicate_0)
  next
    case True
    then obtain np where np: "css_get r next_page_query = Some np" "np \<noteq> []"
      by (auto simp: is_link_def split: option.splits)
    from True np have nl: "next_page_links r = [np]"
      by (simp add: next_page_links_def)
    with assms(3) have "accepted new_request r np" by simp
    from accepted_url [OF this] obtain joined stored where
      url: "urljoin r np = Inr joined" "new_request joined = Inr stored"
        "link_url new_request r np = Inr stored"
      by blast
    define g2 where "g2 = (\<lambda>i. g1 (Suc i))"
    define ua where "ua = USER_AGENTS self ! (g1 0 mod length (USER_AGENTS self))"
    have ch: "choice (USER_AGENTS self) g1 = Inr (ua, g2)"
      using choice_nonempty [OF assms(1), of g1] by (simp add: ua_def g2_def)
    define nx where
      "nx = \<lparr>request_url = stored, headers = [(''User-Agent'', ua)],
             meta = [], callback = CB_parse, errback = CB_errback\<rparr>"
    from np url ch prods(1) have run: "parse new_request self r g = (prods @ [nx], None, g2)"
      by (simp add: parse_def nx_def)
    have "map stored_url [nx] = map (link_url new_request r) (next_page_links r)"
      by (simp add: nl nx_def stored_url_def url(3))
    moreover have "map callback [nx] = replicate (length (next_page_links r)) CB_parse"
      by (simp add: nl nx_def)
    ultimately show ?thesis using run prods(2,3) by blast
  qed
qed





lemma parse_products_only:
  assumes "USER_AGENTS self \<noteq> []"
    and "\<forall>rel \<in> set (product_links r). accepted new_request r rel"
  shows "\<exists>prods nexts err g'. parse new_request self r g = (prods @ nexts, err, g') \<and>
           map stored_url prods = map (link_url new_request r) (product_links r) \<and>
           map callback prods = replicate (length (product_links r)) CB_parse_product \<and>
           (\<forall>q \<in> set nexts. callback q = CB_parse)"
proof -
  from assms(2) have "\<forall>rel \<in> set (links_of (css r results_query)). accepted new_request r rel"
    by (simp add: product_links_def)
  from parse_results_accepted [OF assms(1) this, of g]
  obtain prods g1 where
    prods: "parse_results new_request self r (css r results_query) g = (prods, None, g1)"
      "map stored_url prods = map (link_url new_request r) (product_links r)"
      "map callback prods = replicate (length (product_links r)) CB_parse_product"
    by (auto simp: product_links_def)
  have "\<exists>nexts err g'. parse new_request self r g = (prods @ nexts, err, g') \<and>
          (\<forall>q \<in> set nexts. callback q = CB_parse)"
    using prods(1) by (auto simp: parse_def split: option.splits sum.splits)
  with prods(2,3) show ?thesis by blast
qed

lemma product_requests_split:
  assumes "map callback prods = replicate n CB_parse_product"
    and "\<forall>q \<in> set nexts. callback q = CB_parse"
  shows "product_requests (prods @ nexts) = prods"
proof -
  have "\<forall>q \<in> set prods. callback q = CB_parse_product"
    using map_replicate_all [OF assms(1)] by simp
  then have a: "filter (\<lambda>q. callback q = CB_parse_product) prods = prods"
    by simp
  from assms(2) have b: "filter (\<lambda>q. callback q = CB_parse_product) nexts = []"
    by (simp add: filter_empty_conv)
  from a b show ?thesis by (simp add: product_requests_def)
qed

lemma blocks_with_link_urls:
  "map (\<lambda>b. link_url new_request r (the (sel_css_get b href_query))) (blocks_with_link r) =
   map (link_url new_request r) (product_links r)"
  by (simp add: blocks_with_link_def product_links_def links_of_def)

lemma new_spider_user_agents: "USER_AGENTS new_spider \<noteq> []"
  by (simp add: new_spider_def attributes_def class_USER_AGENTS_def)

lemma amazon_links:
  "link_url scheme_checked (search_page blocks next_page) ''/dp/B000000001'' =
     Inr ''https://www.amazon.com/dp/B000000001''"
  "link_url scheme_checked (search_page blocks next_page) ''/dp/B000000002'' =
     Inr ''https://www.amazon.com/dp/B000000002''"
  "link_url scheme_checked (search_page blocks next_page) ''/dp/B000000003'' =
     Inr ''https://www.amazon.com/dp/B000000003''"
  "link_url scheme_checked (search_page blocks next_page) ''/s?k=laptops&page=2'' =
     Inr ''https://www.amazon.com/s?k=laptops&page=2''"
  "link_url scheme_checked (search_page blocks next_page) ''javascript:void(0)'' =
     Inl ValueError"
  by (simp_all add: link_url_def search_page_def amazon_urljoin_def scheme_checked_def)

lemma two_products_page_links:
  "product_links two_products_page = [''/dp/B000000001'', ''/dp/B000000002'']"
  "next_page_links two_products_page = [''/s?k=laptops&page=2'']"
  by (simp_all add: product_links_def links_of_def next_page_links_def two_products_page_def
      search_page_def block_with_def is_link_def)

lemma last_page_links:
  "product_links last_page = [''/dp/B000000003'']"
  "next_page_links last_page = []"
  by (simp_all add: product_links_def links_of_def next_page_links_def last_page_def
      search_page_def block_with_def is_link_def)

lemma script_href_page_links:
  "product_links script_href_page =
     [''/dp/B000000001'', ''javascript:void(0)'', ''/dp/B000000002'']"
  "next_page_links script_href_page = [''/s?k=laptops&page=2'']"
  by (simp_all add: product_links_def links_of_def next_page_links_def script_href_page_def
      search_page_def block_with_def is_link_def)

lemma two_products_page_blocks:
  "blocks_with_link two_products_page =
     [block_with (Some ''/dp/B000000001''), block_with (Some ''/dp/B000000002'')]"
  by (simp add: blocks_with_link_def two_products_page_def search_page_def block_with_def
      is_link_def)

lemma stored_urls: "map stored_url reqs = map Inr urls \<longleftrightarrow> map request_url reqs = urls"
proof -
  have "map stored_url reqs = map Inr (map request_url reqs)"
    by (simp add: stored_url_def)
  then show ?thesis
    by (metis inj_Inr inj_map_eq_map)
qed

lemma strip_empty: "strip [] = []"
  by (simp add: strip_def)

lemma extract_text_nothing: "xpath_get r query = None \<Longrightarrow> extract_text r query = []"
  by (simp add: extract_text_def strip_empty)

lemma bare_product_page_fields:
  "xpath_get bare_product_page q = None"
  \<open>xpath_re_first bare_product_page script_query color_images_regex =
     Some ''{"initial":[{"large":"a.jpg"}''\<close>
  by (simp_all add: bare_product_page_def)

subsection \<open>The claims\<close>

text \<open>
  C1. When the spider is closed with a record counter of 0, \<^verbatim>\<open>spider_closed\<close>
  raises CloseSpider, the run-level failure; with a counter of at least 1 it returns
  normally. The counter is 0 after the constructor and grows by one with each record
  \<^verbatim>\<open>parse_product\<close> returns.
\<close>

theorem spider_closed_fails_iff_no_items:
  "(total_items self = 0 \<longrightarrow> spider_closed self = Inl (CloseSpider no_items_message)) \<and>
   (1 \<le> total_items self \<longrightarrow> spider_closed self = Inr ())"
  by (simp add: spider_closed_def)

theorem spider_closed_fails_iff_no_items_witness:
  "total_items new_spider = 0 \<and>
   spider_closed new_spider = Inl (CloseSpider no_items_message) \<and>
   1 \<le> total_items (snd (parse_product loads_fails new_spider bare_product_page)) \<and>
   spider_closed (snd (parse_product loads_fails new_spider bare_product_page)) = Inr ()"
proof -
  have zero: "total_items new_spider = 0"
    by (simp add: new_spider_def attributes_def)
  have one: "1 \<le> total_items (snd (parse_product loads_fails new_spider bare_product_page))"
    by (simp add: parse_product_def Let_def new_spider_def attributes_def)
  from zero one
    spider_closed_fails_iff_no_items [of new_spider]
    spider_closed_fails_iff_no_items
      [of "snd (parse_product loads_fails new_spider bare_product_page)"]
  show ?thesis by blast
qed

text \<open>
  C2, as stated, fails on a page with a link that the constructor of \<^verbatim>\<open>Request\<close>
  refuses. The page below has three product links and a next-page link; the second product
  link is \<^verbatim>\<open>javascript:void(0)\<close>, the constructor raises ValueError on it, and the
  generator ends there: one request was yielded, none for the third product link and none
  for the next page.
\<close>

theorem script_href_ends_parse_counterexample:
  "product_links script_href_page =
     [''/dp/B000000001'', ''javascript:void(0)'', ''/dp/B000000002''] \<and>
   next_page_links script_href_page = [''/s?k=laptops&page=2''] \<and>
   map request_url (fst (parse scheme_checked new_spider script_href_page draws)) =
     [''https://www.amazon.com/dp/B000000001''] \<and>
   fst (snd (parse scheme_checked new_spider script_href_page draws)) = Some ValueError"
  by (simp add: script_href_page_links)
    (simp add: parse_def script_href_page_def search_page_def block_with_def
      new_spider_def attributes_def class_USER_AGENTS_def choice_def draws_def
      amazon_urljoin_def scheme_checked_def results_query_def href_query_def
      next_page_query_def)

text \<open>
  C2, amended. On a search page all of whose product links and next-page link join to URLs
  that the constructor of \<^verbatim>\<open>Request\<close> accepts, and with a non-empty user-agent
  pool, \<^verbatim>\<open>parse\<close> runs to its end and yields one request per product link, in
  page order and each with the callback \<^verbatim>\<open>parse_product\<close>, and after all of them
  one request with the callback \<^verbatim>\<open>parse\<close> for the next-page link when there is
  one, and none when there is not. A link is an href that is present and not empty
  (\<open>is_link\<close>).
\<close>

theorem parse_enqueues_products_then_next_page:
  assumes "USER_AGENTS self \<noteq> []"
    and "\<forall>rel \<in> set (product_links r @ next_page_links r). accepted new_request r rel"
  shows "\<exists>reqs g'. parse new_request self r g = (reqs, None, g') \<and>
           map stored_url reqs =
             map (link_url new_request r) (product_links r) @
             map (link_url new_request r) (next_page_links r) \<and>
           map callback reqs =
             replicate (length (product_links r)) CB_parse_product @
             replicate (length (next_page_links r)) CB_parse \<and>
           length (next_page_links r) = (if is_link (css_get r next_page_query) then 1 else 0)"
proof -
  from assms(2) have
    "\<forall>rel \<in> set (product_links r). accepted new_request r rel"
    "\<forall>rel \<in> set (next_page_links r). accepted new_request r rel"
    by simp_all
  from parse_shape [OF assms(1) this, of g] obtain prods nexts g' where
    "parse new_request self r g = (prods @ nexts, None, g')"
    "map stored_url prods = map (link_url new_request r) (product_links r)"
    "map callback prods = replicate (length (product_links r)) CB_parse_product"
    "map stored_url nexts = map (link_url new_request r) (next_page_links r)"
    "map callback nexts = replicate (length (next_page_links r)) CB_parse"
    by blast
  moreover have
    "length (next_page_links r) = (if is_link (css_get r next_page_query) then 1 else 0)"
    by (simp add: next_page_links_def)
  ultimately show ?thesis by (metis map_append)
qed

theorem parse_enqueues_products_then_next_page_witness:
  "USER_AGENTS new_spider \<noteq> [] \<and>
   accepted scheme_checked two_products_page ''/dp/B000000001'' \<and>
   accepted scheme_checked two_products_page ''/dp/B000000002'' \<and>
   accepted scheme_checked two_products_page ''/s?k=laptops&page=2'' \<and>
   (\<exists>reqs g'. parse scheme_checked new_spider two_products_page draws = (reqs, None, g') \<and>
      map request_url reqs =
        [''https://www.amazon.com/dp/B000000001'', ''https://www.amazon.com/dp/B000000002'',
         ''https://www.amazon.com/s?k=laptops&page=2''] \<and>
      map callback reqs = [CB_parse_product, CB_parse_product, CB_parse]) \<and>
   accepted scheme_checked last_page ''/dp/B000000003'' \<and>
   (\<exists>reqs g'. parse scheme_checked new_spider last_page draws = (reqs, None, g') \<and>
      map request_url reqs = [''https://www.amazon.com/dp/B000000003''] \<and>
      map callback reqs = [CB_parse_product])"
proof -
  have ua: "USER_AGENTS new_spider \<noteq> []"
    by (rule new_spider_user_agents)
  have acc: "accepted scheme_checked two_products_page ''/dp/B000000001''"
    "accepted scheme_checked two_products_page ''/dp/B000000002''"
    "accepted scheme_checked two_products_page ''/s?k=laptops&page=2''"
    "accepted scheme_checked last_page ''/dp/B000000003''"
    by (simp_all add: accepted_def two_products_page_def last_page_def amazon_links)
  have all2: "\<forall>rel \<in> set (product_links two_products_page @ next_page_links two_products_page).
      accepted scheme_checked two_products_page rel"
    using acc by (simp add: two_products_page_links)
  have all1: "\<forall>rel \<in> set (product_links last_page @ next_page_links last_page).
      accepted scheme_checked last_page rel"
    using acc by (simp add: last_page_links)
  have urls2: "map (link_url scheme_checked two_products_page)
      [''/dp/B000000001'', ''/dp/B000000002'', ''/s?k=laptops&page=2''] =
      map Inr [''https://www.amazon.com/dp/B000000001'', ''https://www.amazon.com/dp/B000000002'',
         ''https://www.amazon.com/s?k=laptops&page=2'']"
    by (simp add: two_products_page_def amazon_links)
  have urls1: "map (link_url scheme_checked last_page) [''/dp/B000000003''] =
      map Inr [''https://www.amazon.com/dp/B000000003'']"
    by (simp add: last_page_def amazon_links)
  from parse_enqueues_products_then_next_page [OF ua all2, of draws]
  obtain reqs g' where
    "parse scheme_checked new_spider two_products_page draws = (reqs, None, g')"
    "map stored_url reqs = map (link_url scheme_checked two_products_page)
       [''/dp/B000000001'', ''/dp/B000000002'', ''/s?k=laptops&page=2'']"
    "map callback reqs = [CB_parse_product, CB_parse_product, CB_parse]"
    by (auto simp add: two_products_page_links numeral_2_eq_2)
  then have a: "\<exists>reqs g'. parse scheme_checked new_spider two_products_page draws = (reqs, None, g') \<and>
      map request_url reqs =
        [''https://www.amazon.com/dp/B000000001'', ''https://www.amazon.com/dp/B000000002'',
         ''https://www.amazon.com/s?k=laptops&page=2''] \<and>
      map callback reqs = [CB_parse_product, CB_parse_product, CB_parse]"
    unfolding urls2 stored_urls by auto
  from parse_enqueues_products_then_next_page [OF ua all1, of draws]
  obtain reqs g' where
    "parse scheme_checked new_spider last_page draws = (reqs, None, g')"
    "map stored_url reqs = map (link_url scheme_checked last_page) [''/dp/B000000003'']"
    "map callback reqs = [CB_parse_product]"
    by (auto simp add: last_page_links)
  then have b: "\<exists>reqs g'. parse scheme_checked new_spider last_page draws = (reqs, None, g') \<and>
      map request_url reqs = [''https://www.amazon.com/dp/B000000003''] \<and>
      map callback reqs = [CB_parse_product]"
    unfolding urls1 stored_urls by auto
  from ua acc a b show ?thesis by - (intro conjI, assumption+)
qed

text \<open>
  C7. \<^verbatim>\<open>parse_product\<close> always returns one item and counts it: the spider comes
  back with \<^verbatim>\<open>total_items\<close> one higher. Each of title, price, rating, reviews and
  description is the empty string when its query matches nothing, and the image list is
  empty when the image data was found but \<^verbatim>\<open>json.loads\<close> raised on it.
\<close>

theorem parse_product_never_fails:
  "snd (parse_product loads self r) = self\<lparr>total_items := total_items self + 1\<rparr> \<and>
   item_url (fst (parse_product loads self r)) = url r \<and>
   (xpath_get r title_query = None \<longrightarrow> title (fst (parse_product loads self r)) = []) \<and>
   (xpath_get r price_query = None \<longrightarrow> price (fst (parse_product loads self r)) = []) \<and>
   (xpath_get r rating_query = None \<longrightarrow> rating (fst (parse_product loads self r)) = []) \<and>
   (xpath_get r reviews_query = None \<longrightarrow> reviews (fst (parse_product loads self r)) = []) \<and>
   (xpath_get r description_query = None \<longrightarrow>
      description (fst (parse_product loads self r)) = []) \<and>
   (\<forall>js_raw e. xpath_re_first r script_query color_images_regex = Some js_raw \<and>
        loads js_raw = Inl e \<longrightarrow>
      images (fst (parse_product loads self r)) = [])"
proof -
  have counted: "snd (parse_product loads self r) = self\<lparr>total_items := total_items self + 1\<rparr>"
    by (simp add: parse_product_def Let_def)
  have source: "item_url (fst (parse_product loads self r)) = url r"
    by (simp add: parse_product_def Let_def)
  have t: "title (fst (parse_product loads self r)) = extract_text r title_query"
    by (simp add: parse_product_def Let_def)
  have p: "price (fst (parse_product loads self r)) = extract_text r price_query"
    by (simp add: parse_product_def Let_def)
  have ra: "rating (fst (parse_product loads self r)) = extract_text r rating_query"
    by (simp add: parse_product_def Let_def)
  have re: "reviews (fst (parse_product loads self r)) = extract_text r reviews_query"
    by (simp add: parse_product_def Let_def)
  have d: "description (fst (parse_product loads self r)) = extract_text r description_query"
    by (simp add: parse_product_def Let_def)
  have im: "images (fst (parse_product loads self r)) = []"
    if "xpath_re_first r script_query color_images_regex = Some js_raw" "loads js_raw = Inl e"
    for js_raw e
    using that by (simp add: parse_product_def Let_def load_images_def)
  from counted source t p ra re d im show ?thesis
    by (simp add: extract_text_nothing)
qed

theorem parse_product_never_fails_witness:
  \<open>xpath_get bare_product_page title_query = None \<and>
   title (fst (parse_product loads_fails new_spider bare_product_page)) = [] \<and>
   xpath_get bare_product_page price_query = None \<and>
   price (fst (parse_product loads_fails new_spider bare_product_page)) = [] \<and>
   xpath_get bare_product_page rating_query = None \<and>
   rating (fst (parse_product loads_fails new_spider bare_product_page)) = [] \<and>
   xpath_get bare_product_page reviews_query = None \<and>
   reviews (fst (parse_product loads_fails new_spider bare_product_page)) = [] \<and>
   xpath_get bare_product_page description_query = None \<and>
   description (fst (parse_product loads_fails new_spider bare_product_page)) = [] \<and>
   xpath_re_first bare_product_page script_query color_images_regex =
     Some ''{"initial":[{"large":"a.jpg"}'' \<and>
   loads_fails ''{"initial":[{"large":"a.jpg"}'' = Inl JSONDecodeError \<and>
   images (fst (parse_product loads_fails new_spider bare_product_page)) = [] \<and>
   total_items (snd (parse_product loads_fails new_spider bare_product_page)) = 1\<close>
proof -
  have lf: \<open>loads_fails ''{"initial":[{"large":"a.jpg"}'' = Inl JSONDecodeError\<close>
    by (simp add: loads_fails_def)
  have z: "total_items new_spider = 0"
    by (simp add: new_spider_def attributes_def)
  from parse_product_never_fails [of loads_fails new_spider bare_product_page]
    bare_product_page_fields lf z
  show ?thesis by auto
qed

text \<open>
  C8. With the spider argument \<^verbatim>\<open>keyword=widgets\<close>, and without one, the
  constructor raises AttributeError when \<^verbatim>\<open>self.crawler\<close> is not yet set, so no
  request is seeded at all. Where the attribute is set, the constructor returns a spider
  whose \<^verbatim>\<open>keyword\<close> is \<^verbatim>\<open>widgets\<close>, and \<^verbatim>\<open>start_requests\<close> still
  yields the one request for the search for \<^verbatim>\<open>laptops\<close>: \<^verbatim>\<open>start_urls\<close>
  was computed in the class body from the class-level keyword, and nothing the constructor
  does with its arguments recomputes it.
\<close>

theorem start_requests_ignores_keyword_argument:
  "init None (Some ''widgets'') None = Inl AttributeError \<and>
   init None None None = Inl AttributeError \<and>
   (\<exists>self c. init None (Some ''widgets'') (Some idle_crawler) = Inr (self, c) \<and>
      keyword self = ''widgets'' \<and>
      map request_url (fst (start_requests scheme_checked self draws)) =
        [''https://www.amazon.com/s?k=laptops''] \<and>
      fst (snd (start_requests scheme_checked self draws)) = None)"
  by (simp add: init_def attributes_def start_requests_def class_start_urls_def
      class_keyword_def class_USER_AGENTS_def class_PROXIES_def choice_def draws_def
      scheme_checked_def)




text \<open>
  C10, as stated, fails on a result block whose link has the empty href: the block carries
  an href, and \<^verbatim>\<open>if not rel: continue\<close> skips it all the same, so the page yields
  no product request for one block with an href.
\<close>

theorem empty_href_block_counterexample:
  "parse scheme_checked new_spider empty_href_page draws = ([], None, draws) \<and>
   length (product_requests []) \<noteq> length (blocks_with_href empty_href_page)"
  by (simp add: parse_def empty_href_page_def search_page_def block_with_def
      product_requests_def blocks_with_href_def results_query_def href_query_def
      next_page_query_def)

text \<open>
  C10, amended. A result block whose href is missing or empty is skipped. On a page whose
  non-empty hrefs all join to URLs that the constructor of \<^verbatim>\<open>Request\<close> accepts,
  and with a non-empty user-agent pool, the product requests are, in page order, one for
  each result block whose href is present and non-empty.
\<close>

theorem parse_skips_blocks_without_link:
  assumes "USER_AGENTS self \<noteq> []"
    and "\<forall>rel \<in> set (product_links r). accepted new_request r rel"
  shows "(\<not> is_link (sel_css_get b href_query) \<longrightarrow>
            parse_results new_request self r (b # bs) g =
            parse_results new_request self r bs g) \<and>
         (\<exists>reqs err g'. parse new_request self r g = (reqs, err, g') \<and>
            length (product_requests reqs) = length (blocks_with_link r) \<and>
            map stored_url (product_requests reqs) =
              map (\<lambda>b. link_url new_request r (the (sel_css_get b href_query)))
                (blocks_with_link r))"
proof
  show "\<not> is_link (sel_css_get b href_query) \<longrightarrow>
          parse_results new_request self r (b # bs) g = parse_results new_request self r bs g"
    by (simp add: is_link_def split: option.splits)
next
  from parse_products_only [OF assms, of g] obtain prods nexts err g' where
    run: "parse new_request self r g = (prods @ nexts, err, g')"
    and urls: "map stored_url prods = map (link_url new_request r) (product_links r)"
    and cbs: "map callback prods = replicate (length (product_links r)) CB_parse_product"
      "\<forall>q \<in> set nexts. callback q = CB_parse"
    by blast
  from cbs have pr: "product_requests (prods @ nexts) = prods"
    by (rule product_requests_split)
  have same: "map stored_url prods =
      map (\<lambda>b. link_url new_request r (the (sel_css_get b href_query))) (blocks_with_link r)"
    using urls by (simp add: blocks_with_link_urls)
  then have "length prods = length (blocks_with_link r)"
    by (metis length_map)
  with run pr same show "\<exists>reqs err g'. parse new_request self r g = (reqs, err, g') \<and>
            length (product_requests reqs) = length (blocks_with_link r) \<and>
            map stored_url (product_requests reqs) =
              map (\<lambda>b. link_url new_request r (the (sel_css_get b href_query)))
                (blocks_with_link r)"
    by auto
qed

theorem parse_skips_blocks_without_link_witness:
  "USER_AGENTS new_spider \<noteq> [] \<and>
   accepted scheme_checked two_products_page ''/dp/B000000001'' \<and>
   accepted scheme_checked two_products_page ''/dp/B000000002'' \<and>
   \<not> is_link (sel_css_get (block_with (Some [])) href_query) \<and>
   parse_results scheme_checked new_spider two_products_page [block_with (Some [])] draws =
     parse_results scheme_checked new_spider two_products_page [] draws \<and>
   (\<exists>reqs err g'. parse scheme_checked new_spider two_products_page draws = (reqs, err, g') \<and>
      length (product_requests reqs) = 2 \<and>
      map request_url (product_requests reqs) =
        [''https://www.amazon.com/dp/B000000001'', ''https://www.amazon.com/dp/B000000002''])"
proof -
  have ua: "USER_AGENTS new_spider \<noteq> []"
    by (rule new_spider_user_agents)
  have acc: "accepted scheme_checked two_products_page ''/dp/B000000001''"
    "accepted scheme_checked two_products_page ''/dp/B000000002''"
    by (simp_all add: accepted_def two_products_page_def amazon_links)
  then have all2: "\<forall>rel \<in> set (product_links two_products_page).
      accepted scheme_checked two_products_page rel"
    by (simp add: two_products_page_links)
  have nl: "\<not> is_link (sel_css_get (block_with (Some [])) href_query)"
    by (simp add: is_link_def block_with_def)
  have urls: "map (\<lambda>b. link_url scheme_checked two_products_page (the (sel_css_get b href_query)))
      (blocks_with_link two_products_page) =
      map Inr [''https://www.amazon.com/dp/B000000001'', ''https://www.amazon.com/dp/B000000002'']"
    unfolding blocks_with_link_urls
    by (simp add: two_products_page_links) (simp add: two_products_page_def amazon_links)
  have two: "length (blocks_with_link two_products_page) = 2"
    by (simp add: two_products_page_blocks)
  from parse_skips_blocks_without_link
    [OF ua all2, of "block_with (Some [])" "[]" draws] nl
  have skip: "parse_results scheme_checked new_spider two_products_page [block_with (Some [])] draws =
     parse_results scheme_checked new_spider two_products_page [] draws"
    and run: "\<exists>reqs err g'. parse scheme_checked new_spider two_products_page draws = (reqs, err, g') \<and>
      length (product_requests reqs) = 2 \<and>
      map request_url (product_requests reqs) =
        [''https://www.amazon.com/dp/B000000001'', ''https://www.amazon.com/dp/B000000002'']"
    unfolding urls two stored_urls by auto
  from ua acc nl skip run show ?thesis by - (intro conjI, assumption+)
qed

end
